theory Spec2Isabelle
  imports Main
begin

section \<open>Data model\<close>

text \<open>
  Python objects are references, so tensors and operator nodes live in a store and are
  passed around by reference. A reference is the index of the object in its store;
  creating an object appends it, so the new reference is the old length of the store.
  Extents are non-negative integers; symbolic dimension tokens are not part of this
  development.
\<close>

record Tensor =
  shape :: "nat list"
  producer :: "nat option"

text \<open>
  Modelled from the spec: the class TensorAccessor of tensor_accessor.py is not among the
  sources. An accessor holds a reference to the tensor it views and view metadata, of
  which the contiguous flag is kept.
\<close>

record Accessor =
  acc_tensor :: nat
  acc_contiguous :: bool

text \<open>
  Modelled from the spec: the constructor \<^verbatim>\<open>TensorAccessor(tensor)\<close>, not among the
  sources. The new accessor refers to the tensor and views it whole.
\<close>

definition TensorAccessor :: "nat \<Rightarrow> Accessor" where
  "TensorAccessor t = \<lparr>acc_tensor = t, acc_contiguous = True\<rparr>"

text \<open>The attribute dictionary \<^verbatim>\<open>_attrs\<close> of an operator, with the keys this operator uses.\<close>

record OpNode =
  op :: string
  has_d :: bool
  inputs :: "nat list"
  input_accessors :: "Accessor list"
  outputs :: "nat list"
  depth :: nat

record graph =
  tensors :: "Tensor list"
  nodes :: "OpNode list"

text \<open>
  The error kinds of the construction protocol. The first carries the two rank or extent
  values in conflict, the second the offending axis.
\<close>

datatype error = ShapeMismatch nat nat | InvalidAuxiliaryOperand nat

section \<open>Shape inference of the two-operand parent\<close>

text \<open>
  Modelled from the spec: the method \<^verbatim>\<open>bmm_crr._infer_shapes\<close> is not among the sources.
  Both operands have rank 3; A is (Batch, K, M), B is (Batch, K, N); the batch extents
  and the contraction extents agree; the output is (Batch, M, N). Otherwise a
  ShapeMismatch names the two values in conflict.
\<close>

definition infer_shapes :: "nat list \<Rightarrow> nat list \<Rightarrow> error + nat list" where
  "infer_shapes sa sb =
     (if length sa \<noteq> 3 then Inl (ShapeMismatch (length sa) 3)
      else if length sb \<noteq> 3 then Inl (ShapeMismatch (length sb) 3)
      else if sa ! 0 \<noteq> sb ! 0 then Inl (ShapeMismatch (sa ! 0) (sb ! 0))
      else if sa ! 1 \<noteq> sb ! 1 then Inl (ShapeMismatch (sa ! 1) (sb ! 1))
      else Inr [sa ! 0, sa ! 2, sb ! 2])"

text \<open>
  Modelled from the spec: \<^verbatim>\<open>_infer_shapes\<close> as it is called, on an operator and two
  tensors. It is a function of the two shapes alone and has no side effect; the operator
  it is called on is not consulted.
\<close>

definition bmm_crr_infer_shapes :: "graph \<Rightarrow> nat \<Rightarrow> nat \<Rightarrow> nat \<Rightarrow> error + nat list" where
  "bmm_crr_infer_shapes g self a b =
     infer_shapes (shape (tensors g ! a)) (shape (tensors g ! b))"

section \<open>Broadcast validation\<close>

text \<open>
  Modelled from the spec: the function \<^verbatim>\<open>is_valid_inputs\<close> of the module bmm is not among
  the sources. Its result is a boolean and, on failure, the axis (an index into the
  output shape) with the two conflicting extents, first the output's and then the
  auxiliary operand's. Shapes are aligned from the rightmost dimension; each aligned pair
  is equal or one of the two extents is 1; the auxiliary operand may have fewer leading
  dimensions than the output. An auxiliary operand of higher rank than the output is
  rejected; there is then no pair of extents to report.
\<close>

type_synonym verdict = "bool \<times> (nat \<times> nat \<times> nat) option"

text \<open>
  Modelled from the spec: the trailing-dimension alignment, on the two shapes reversed, so
  that the rightmost dimensions come first. The first argument is the rest of the output
  shape, the second the rest of the auxiliary shape; the first pair in conflict is
  reported, with the position of the output's extent in the output shape.
\<close>

fun align_check :: "nat list \<Rightarrow> nat list \<Rightarrow> verdict" where
  "align_check os [] = (True, None)"
| "align_check [] (c # cs) = (False, None)"
| "align_check (d # os) (c # cs) =
     (if d = c \<or> d = 1 \<or> c = 1 then align_check os cs
      else (False, Some (length os, d, c)))"

text \<open>
  Modelled from the spec: the validator itself. An exact match is accepted; any other
  shape is decided by the alignment rule.
\<close>

definition bmm_is_valid_inputs :: "nat list \<Rightarrow> nat list \<Rightarrow> verdict" where
  "bmm_is_valid_inputs output_shapes c_shapes =
     (if c_shapes = output_shapes then (True, None)
      else align_check (rev output_shapes) (rev c_shapes))"

section \<open>Operator construction\<close>

text \<open>
  Modelled from the spec: the constructor of the parent class bmm_crr is not among the
  sources. It creates an operator with its kind tag, no fused operand, no inputs, no
  accessors, no outputs and depth 0, and registers it nowhere.
\<close>

definition bmm_crr_init :: "graph \<Rightarrow> nat \<times> graph" where
  "bmm_crr_init g =
     (length (nodes g),
      g\<lparr>nodes := nodes g @
         [\<lparr>op = ''bmm_crr'', has_d = False, inputs = [], input_accessors = [],
           outputs = [], depth = 0\<rparr>]\<rparr>)"

text \<open>\<^verbatim>\<open>bmm_crr_add.__init__\<close>: the parent's constructor, then the two attributes.\<close>

definition bmm_crr_add_init :: "graph \<Rightarrow> nat \<times> graph" where
  "bmm_crr_add_init g =
     (let (self, g1) = bmm_crr_init g;
          g2 = g1\<lparr>nodes := (nodes g1)[self := (nodes g1 ! self)\<lparr>op := ''bmm_crr_add''\<rparr>]\<rparr>;
          g3 = g2\<lparr>nodes := (nodes g2)[self := (nodes g2 ! self)\<lparr>has_d := True\<rparr>]\<rparr>
      in (self, g3))"

text \<open>
  Modelled from the spec: the depth that an input contributes to its consumer, namely the
  depth of the node that produced it, and 0 for an input without producer (the default of
  the maximum in the primary construction).
\<close>

definition producer_depth :: "graph \<Rightarrow> nat \<Rightarrow> nat" where
  "producer_depth g t =
     (case producer (tensors g ! t) of None \<Rightarrow> 0 | Some n \<Rightarrow> depth (nodes g ! n))"

text \<open>
  Modelled from the spec: the method \<^verbatim>\<open>_set_depth\<close> of the operator base class is not among
  the sources. The depth of a node becomes 1 plus the maximum, over its current input
  list, of what each input contributes.
\<close>

definition set_depth :: "graph \<Rightarrow> nat \<Rightarrow> graph" where
  "set_depth g self =
     (let nd = nodes g ! self
      in g\<lparr>nodes := (nodes g)[self :=
            nd\<lparr>depth := 1 + foldr max (map (producer_depth g) (inputs nd)) 0\<rparr>]\<rparr>)"

text \<open>
  Modelled from the spec: the method \<^verbatim>\<open>bmm_crr.__call__\<close> is not among the sources. It is
  the primary construction: shape inference on the two operands; on a mismatch the error
  is raised and nothing has been created; otherwise the output tensor is allocated with
  the inferred shape and its producer reference set to this node, the node gets
  inputs [A, B], their accessors and its depth, and the output tensor is returned.
\<close>

definition bmm_crr_call :: "graph \<Rightarrow> nat \<Rightarrow> nat \<Rightarrow> nat \<Rightarrow> (error + nat) \<times> graph" where
  "bmm_crr_call g self a b =
     (case bmm_crr_infer_shapes g self a b of
        Inl e \<Rightarrow> (Inl e, g)
      | Inr s \<Rightarrow>
          (let output = length (tensors g);
               g1 = g\<lparr>tensors := tensors g @ [\<lparr>shape = s, producer = Some self\<rparr>]\<rparr>;
               g2 = g1\<lparr>nodes := (nodes g1)[self := (nodes g1 ! self)
                      \<lparr>inputs := [a, b],
                       input_accessors := [TensorAccessor a, TensorAccessor b],
                       outputs := [output]\<rparr>]\<rparr>
           in (Inr output, set_depth g2 self)))"

text \<open>
  The statements of \<^verbatim>\<open>bmm_crr_add.__call__\<close> after the parent's call: c is appended to
  the input list of the node, and the accessor list is built anew, one accessor for each
  input in order.
\<close>

definition append_input :: "graph \<Rightarrow> nat \<Rightarrow> nat \<Rightarrow> graph" where
  "append_input g self c =
     g\<lparr>nodes := (nodes g)[self :=
          (nodes g ! self)\<lparr>inputs := inputs (nodes g ! self) @ [c]\<rparr>]\<rparr>"

definition rebuild_accessors :: "graph \<Rightarrow> nat \<Rightarrow> graph" where
  "rebuild_accessors g self =
     g\<lparr>nodes := (nodes g)[self :=
          (nodes g ! self)\<lparr>input_accessors :=
             map TensorAccessor (inputs (nodes g ! self))\<rparr>]\<rparr>"

text \<open>
  \<^verbatim>\<open>bmm_crr_add.__call__\<close>, statement by statement: the parent's call on a and b (an
  exception of the parent leaves the method at once); c appended to the inputs; the
  accessors rebuilt over all inputs; the depth set again; the parent's output returned.
  No statement of the method looks at the shape of c.
\<close>

definition bmm_crr_add_call ::
    "graph \<Rightarrow> nat \<Rightarrow> nat \<Rightarrow> nat \<Rightarrow> nat \<Rightarrow> (error + nat) \<times> graph" where
  "bmm_crr_add_call g self a b c =
     (case bmm_crr_call g self a b of
        (Inl e, g1) \<Rightarrow> (Inl e, g1)
      | (Inr output, g1) \<Rightarrow>
          (let g2 = append_input g1 self c;
               g3 = rebuild_accessors g2 self;
               g4 = set_depth g3 self
           in (Inr output, g4)))"

text \<open>
  The static method \<^verbatim>\<open>bmm_crr_add.is_valid_inputs\<close>: a temporary bmm_crr operator is
  constructed, its shape inference run on A and B (an exception leaves the method), the
  shape of C read, and the verdict of the validator returned as it is.
\<close>

definition is_valid_inputs ::
    "graph \<Rightarrow> nat \<Rightarrow> nat \<Rightarrow> nat \<Rightarrow> (error + verdict) \<times> graph" where
  "is_valid_inputs g a b c =
     (let (tmp, g1) = bmm_crr_init g
      in case bmm_crr_infer_shapes g1 tmp a b of
           Inl e \<Rightarrow> (Inl e, g1)
         | Inr output_shapes \<Rightarrow>
             (let c_shapes = shape (tensors g1 ! c)
              in (Inr (bmm_is_valid_inputs output_shapes c_shapes), g1)))"

section \<open>Example graphs\<close>

text \<open>Graph inputs (tensors without producer) of the given shapes, and no operator.\<close>

definition shapes_graph :: "nat list list \<Rightarrow> graph" where
  "shapes_graph ss = \<lparr>tensors = map (\<lambda>s. \<lparr>shape = s, producer = None\<rparr>) ss, nodes = []\<rparr>"

text \<open>Three graph inputs, and one bmm_crr_add operator (node 0) not yet called.\<close>

definition abc_graph :: "nat list \<Rightarrow> nat list \<Rightarrow> nat list \<Rightarrow> graph" where
  "abc_graph sa sb sc = snd (bmm_crr_add_init (shapes_graph [sa, sb, sc]))"

text \<open>
  Two graph inputs, a third tensor produced by a node of depth 2 (node 0), and one
  bmm_crr_add operator (node 1) not yet called.
\<close>

definition depth_graph :: graph where
  "depth_graph =
     snd (bmm_crr_add_init
       \<lparr>tensors = [\<lparr>shape = [4, 16, 32], producer = None\<rparr>,
                   \<lparr>shape = [4, 16, 64], producer = None\<rparr>,
                   \<lparr>shape = [32, 64], producer = Some 0\<rparr>],
        nodes = [\<lparr>op = ''elementwise'', has_d = False, inputs = [], input_accessors = [],
                  outputs = [2], depth = 2\<rparr>]\<rparr>)"

section \<open>Properties\<close>

lemma infer_shapes_rank3:
  "infer_shapes [ba, ka, m] [bb, kb, n] =
     (if ba \<noteq> bb then Inl (ShapeMismatch ba bb)
      else if ka \<noteq> kb then Inl (ShapeMismatch ka kb)
      else Inr [ba, m, n])"
  by (simp add: infer_shapes_def)

subsection \<open>What each step changes\<close>

lemma set_depth_tensors: "tensors (set_depth g n) = tensors g"
  by (simp add: set_depth_def Let_def)

lemma set_depth_length: "length (nodes (set_depth g n)) = length (nodes g)"
  by (simp add: set_depth_def Let_def)

lemma set_depth_self:
  "n < length (nodes g) \<Longrightarrow>
   nodes (set_depth g n) ! n =
     (nodes g ! n)\<lparr>depth := 1 + foldr max (map (producer_depth g) (inputs (nodes g ! n))) 0\<rparr>"
  by (simp add: set_depth_def Let_def)

lemma set_depth_other: "m \<noteq> n \<Longrightarrow> nodes (set_depth g n) ! m = nodes g ! m"
  by (simp add: set_depth_def Let_def)


lemma producer_depth_frame:
  assumes "t < length (tensors g)" "producer (tensors g ! t) \<noteq> Some self"
    and "tensors g' = tensors g @ xs"
    and "\<And>m. m \<noteq> self \<Longrightarrow> nodes g' ! m = nodes g ! m"
  shows "producer_depth g' t = producer_depth g t"
proof (cases "producer (tensors g ! t)")
  case None
  with assms(1,3) show ?thesis
    by (simp add: producer_depth_def nth_append)
next
  case (Some n)
  with assms(2) have "n \<noteq> self" by simp
  then have "nodes g' ! n = nodes g ! n" by (rule assms(4))
  with Some assms(1,3) show ?thesis
    by (simp add: producer_depth_def nth_append)
qed

lemma append_input_frame:
  "tensors (append_input g n c) = tensors g"
  "length (nodes (append_input g n c)) = length (nodes g)"
  "m \<noteq> n \<Longrightarrow> nodes (append_input g n c) ! m = nodes g ! m"
  "n < length (nodes g) \<Longrightarrow>
     nodes (append_input g n c) ! n = (nodes g ! n)\<lparr>inputs := inputs (nodes g ! n) @ [c]\<rparr>"
  by (simp_all add: append_input_def)

lemma rebuild_accessors_frame:
  "tensors (rebuild_accessors g n) = tensors g"
  "length (nodes (rebuild_accessors g n)) = length (nodes g)"
  "m \<noteq> n \<Longrightarrow> nodes (rebuild_accessors g n) ! m = nodes g ! m"
  "n < length (nodes g) \<Longrightarrow>
     nodes (rebuild_accessors g n) ! n =
       (nodes g ! n)\<lparr>input_accessors := map TensorAccessor (inputs (nodes g ! n))\<rparr>"
  by (simp_all add: rebuild_accessors_def)

lemma bmm_crr_call_fail:
  "bmm_crr_infer_shapes g self a b = Inl e \<Longrightarrow> bmm_crr_call g self a b = (Inl e, g)"
  by (simp add: bmm_crr_call_def)

lemma bmm_crr_call_ok:
  assumes "bmm_crr_infer_shapes g self a b = Inr s"
  shows "fst (bmm_crr_call g self a b) = Inr (length (tensors g))"
    and "tensors (snd (bmm_crr_call g self a b)) =
           tensors g @ [\<lparr>shape = s, producer = Some self\<rparr>]"
    and "length (nodes (snd (bmm_crr_call g self a b))) = length (nodes g)"
    and "m \<noteq> self \<Longrightarrow> nodes (snd (bmm_crr_call g self a b)) ! m = nodes g ! m"
  using assms by (simp_all add: bmm_crr_call_def Let_def set_depth_def)

lemma bmm_crr_call_self:
  assumes "bmm_crr_infer_shapes g self a b = Inr s" "self < length (nodes g)"
  shows "inputs (nodes (snd (bmm_crr_call g self a b)) ! self) = [a, b]"
    and "outputs (nodes (snd (bmm_crr_call g self a b)) ! self) = [length (tensors g)]"
    and "input_accessors (nodes (snd (bmm_crr_call g self a b)) ! self) =
           [TensorAccessor a, TensorAccessor b]"
    and "op (nodes (snd (bmm_crr_call g self a b)) ! self) = op (nodes g ! self)"
    and "has_d (nodes (snd (bmm_crr_call g self a b)) ! self) = has_d (nodes g ! self)"
  using assms by (simp_all add: bmm_crr_call_def Let_def set_depth_def)

lemma bmm_crr_add_call_fail:
  "bmm_crr_infer_shapes g self a b = Inl e \<Longrightarrow> bmm_crr_add_call g self a b c = (Inl e, g)"
  by (simp add: bmm_crr_add_call_def bmm_crr_call_fail)

lemma bmm_crr_add_call_ok:
  assumes "bmm_crr_infer_shapes g self a b = Inr s"
  shows "bmm_crr_add_call g self a b c =
           (Inr (length (tensors g)),
            set_depth (rebuild_accessors
              (append_input (snd (bmm_crr_call g self a b)) self c) self) self)"
proof -
  obtain r g1 where eq: "bmm_crr_call g self a b = (r, g1)" by (cases "bmm_crr_call g self a b")
  with bmm_crr_call_ok(1) [OF assms] have "r = Inr (length (tensors g))" by simp
  with eq show ?thesis by (simp add: bmm_crr_add_call_def)
qed

lemma bmm_crr_add_call_result:
  "fst (bmm_crr_add_call g self a b c) = fst (bmm_crr_call g self a b)"
  by (simp add: bmm_crr_add_call_def Let_def split: prod.splits sum.splits)

lemma bmm_crr_add_call_tensors:
  "tensors (snd (bmm_crr_add_call g self a b c)) = tensors (snd (bmm_crr_call g self a b))"
  by (simp add: bmm_crr_add_call_def Let_def set_depth_tensors append_input_frame
        rebuild_accessors_frame split: prod.splits sum.splits)

lemma bmm_crr_add_call_length:
  "length (nodes (snd (bmm_crr_add_call g self a b c))) = length (nodes g)"
proof (cases "bmm_crr_infer_shapes g self a b")
  case (Inl e)
  then show ?thesis by (simp add: bmm_crr_add_call_fail)
next
  case (Inr s)
  then show ?thesis
    by (simp add: bmm_crr_add_call_ok set_depth_length rebuild_accessors_frame
          append_input_frame bmm_crr_call_ok)
qed

lemma bmm_crr_add_call_other:
  assumes "m \<noteq> self"
  shows "nodes (snd (bmm_crr_add_call g self a b c)) ! m = nodes g ! m"
proof (cases "bmm_crr_infer_shapes g self a b")
  case (Inl e)
  then show ?thesis by (simp add: bmm_crr_add_call_fail)
next
  case (Inr s)
  with assms show ?thesis
    by (simp add: bmm_crr_add_call_ok set_depth_other rebuild_accessors_frame
          append_input_frame bmm_crr_call_ok)
qed

lemma bmm_crr_add_call_fields:
  assumes "bmm_crr_infer_shapes g self a b = Inr s" "self < length (nodes g)"
  shows "inputs (nodes (snd (bmm_crr_add_call g self a b c)) ! self) = [a, b, c]"
    and "input_accessors (nodes (snd (bmm_crr_add_call g self a b c)) ! self) =
           [TensorAccessor a, TensorAccessor b, TensorAccessor c]"
    and "outputs (nodes (snd (bmm_crr_add_call g self a b c)) ! self) = [length (tensors g)]"
    and "op (nodes (snd (bmm_crr_add_call g self a b c)) ! self) = op (nodes g ! self)"
    and "has_d (nodes (snd (bmm_crr_add_call g self a b c)) ! self) = has_d (nodes g ! self)"
  using assms
  by (simp_all add: bmm_crr_add_call_ok set_depth_self set_depth_length
        rebuild_accessors_frame append_input_frame bmm_crr_call_ok bmm_crr_call_self)

lemma bmm_crr_add_call_depth:
  assumes ok: "bmm_crr_infer_shapes g self a b = Inr s" and self: "self < length (nodes g)"
    and a: "a < length (tensors g)" "producer (tensors g ! a) \<noteq> Some self"
    and b: "b < length (tensors g)" "producer (tensors g ! b) \<noteq> Some self"
    and c: "c < length (tensors g)" "producer (tensors g ! c) \<noteq> Some self"
  shows "depth (nodes (snd (bmm_crr_add_call g self a b c)) ! self) =
           1 + max (producer_depth g a) (max (producer_depth g b) (producer_depth g c))"
proof -
  define g3 where
    "g3 = rebuild_accessors (append_input (snd (bmm_crr_call g self a b)) self c) self"
  have call: "snd (bmm_crr_add_call g self a b c) = set_depth g3 self"
    by (simp add: bmm_crr_add_call_ok [OF ok] g3_def)
  have ts: "tensors g3 = tensors g @ [\<lparr>shape = s, producer = Some self\<rparr>]"
    by (simp add: g3_def rebuild_accessors_frame append_input_frame bmm_crr_call_ok [OF ok])
  have len: "length (nodes g3) = length (nodes g)"
    by (simp add: g3_def rebuild_accessors_frame append_input_frame bmm_crr_call_ok [OF ok])
  have other: "nodes g3 ! m = nodes g ! m" if "m \<noteq> self" for m
    using that
    by (simp add: g3_def rebuild_accessors_frame append_input_frame bmm_crr_call_ok [OF ok])
  have ins: "inputs (nodes g3 ! self) = [a, b, c]"
    using self
    by (simp add: g3_def rebuild_accessors_frame append_input_frame bmm_crr_call_ok [OF ok]
          bmm_crr_call_self [OF ok])
  have pa: "producer_depth g3 a = producer_depth g a"
    using a ts other by (rule producer_depth_frame)
  have pb: "producer_depth g3 b = producer_depth g b"
    using b ts other by (rule producer_depth_frame)
  have pc: "producer_depth g3 c = producer_depth g c"
    using c ts other by (rule producer_depth_frame)
  from self len have "self < length (nodes g3)" by simp
  then have "depth (nodes (set_depth g3 self) ! self) =
      1 + foldr max (map (producer_depth g3) (inputs (nodes g3 ! self))) 0"
    by (simp add: set_depth_self)
  with ins pa pb pc call show ?thesis by simp
qed

lemma bmm_crr_add_call_success:
  assumes "bmm_crr_add_call g self a b c = (Inr out, g')"
  shows "\<exists>s. bmm_crr_infer_shapes g self a b = Inr s"
proof (cases "bmm_crr_infer_shapes g self a b")
  case (Inl e)
  with assms show ?thesis by (simp add: bmm_crr_add_call_fail)
next
  case (Inr s)
  then show ?thesis by simp
qed

subsection \<open>The probe\<close>

lemma is_valid_inputs_result:
  "fst (is_valid_inputs g a b c) =
     (case infer_shapes (shape (tensors g ! a)) (shape (tensors g ! b)) of
        Inl e \<Rightarrow> Inl e
      | Inr s \<Rightarrow> Inr (bmm_is_valid_inputs s (shape (tensors g ! c))))"
  by (simp add: is_valid_inputs_def bmm_crr_init_def bmm_crr_infer_shapes_def Let_def
        split: sum.splits)

lemma is_valid_inputs_state:
  "snd (is_valid_inputs g a b c) = snd (bmm_crr_init g)"
  by (simp add: is_valid_inputs_def Let_def split: prod.splits sum.splits)

subsection \<open>The example graphs, evaluated\<close>

lemmas run_defs = bmm_crr_add_call_def bmm_crr_call_def bmm_crr_infer_shapes_def
  infer_shapes_def Let_def set_depth_def append_input_def rebuild_accessors_def
  producer_depth_def TensorAccessor_def is_valid_inputs_def bmm_crr_init_def
  bmm_is_valid_inputs_def

lemma abc_graph_eval:
  "abc_graph sa sb sc =
     \<lparr>tensors = [\<lparr>shape = sa, producer = None\<rparr>, \<lparr>shape = sb, producer = None\<rparr>,
                 \<lparr>shape = sc, producer = None\<rparr>],
      nodes = [\<lparr>op = ''bmm_crr_add'', has_d = True, inputs = [], input_accessors = [],
                outputs = [], depth = 0\<rparr>]\<rparr>"
  by (simp add: abc_graph_def shapes_graph_def bmm_crr_add_init_def bmm_crr_init_def)

lemma depth_graph_eval:
  "depth_graph =
     \<lparr>tensors = [\<lparr>shape = [4, 16, 32], producer = None\<rparr>,
                 \<lparr>shape = [4, 16, 64], producer = None\<rparr>,
                 \<lparr>shape = [32, 64], producer = Some 0\<rparr>],
      nodes = [\<lparr>op = ''elementwise'', has_d = False, inputs = [], input_accessors = [],
                outputs = [2], depth = 2\<rparr>,
               \<lparr>op = ''bmm_crr_add'', has_d = True, inputs = [], input_accessors = [],
                outputs = [], depth = 0\<rparr>]\<rparr>"
  by (simp add: depth_graph_def bmm_crr_add_init_def bmm_crr_init_def)

text \<open>The end-to-end example: A (4,16,32), B (4,16,64), C (32,64).\<close>

lemma end_to_end_run:
  "bmm_crr_add_call (abc_graph [4, 16, 32] [4, 16, 64] [32, 64]) 0 0 1 2 =
     (Inr 3,
      \<lparr>tensors = [\<lparr>shape = [4, 16, 32], producer = None\<rparr>,
                  \<lparr>shape = [4, 16, 64], producer = None\<rparr>,
                  \<lparr>shape = [32, 64], producer = None\<rparr>,
                  \<lparr>shape = [4, 32, 64], producer = Some 0\<rparr>],
       nodes = [\<lparr>op = ''bmm_crr_add'', has_d = True, inputs = [0, 1, 2],
                 input_accessors = [\<lparr>acc_tensor = 0, acc_contiguous = True\<rparr>,
                                    \<lparr>acc_tensor = 1, acc_contiguous = True\<rparr>,
                                    \<lparr>acc_tensor = 2, acc_contiguous = True\<rparr>],
                 outputs = [3], depth = 1\<rparr>]\<rparr>)"
  by (simp add: abc_graph_eval run_defs)

lemma depth_graph_run:
  "bmm_crr_add_call depth_graph 1 0 1 2 =
     (Inr 3,
      \<lparr>tensors = [\<lparr>shape = [4, 16, 32], producer = None\<rparr>,
                  \<lparr>shape = [4, 16, 64], producer = None\<rparr>,
                  \<lparr>shape = [32, 64], producer = Some 0\<rparr>,
                  \<lparr>shape = [4, 32, 64], producer = Some 1\<rparr>],
       nodes = [\<lparr>op = ''elementwise'', has_d = False, inputs = [], input_accessors = [],
                 outputs = [2], depth = 2\<rparr>,
                \<lparr>op = ''bmm_crr_add'', has_d = True, inputs = [0, 1, 2],
                 input_accessors = [\<lparr>acc_tensor = 0, acc_contiguous = True\<rparr>,
                                    \<lparr>acc_tensor = 1, acc_contiguous = True\<rparr>,
                                    \<lparr>acc_tensor = 2, acc_contiguous = True\<rparr>],
                 outputs = [3], depth = 3\<rparr>]\<rparr>)"
  by (simp add: depth_graph_eval run_defs)

section \<open>The claims\<close>

text \<open>
  Claim C1, as the code has it. The construction entry point never looks at the shape of
  the auxiliary operand: for operands A and B on which the primary construction succeeds
  and an auxiliary operand C that the broadcast validation rejects against the inferred
  output shape, the call does not fail with InvalidAuxiliaryOperand. It returns the
  output tensor, and the node has C as its third input.
\<close>

theorem build_accepts_rejected_aux:
  assumes "bmm_crr_infer_shapes g self a b = Inr s"
    and "\<not> fst (bmm_is_valid_inputs s (shape (tensors g ! c)))"
    and "self < length (nodes g)"
  shows "fst (bmm_crr_add_call g self a b c) = Inr (length (tensors g)) \<and>
         fst (bmm_crr_add_call g self a b c) \<noteq> Inl (InvalidAuxiliaryOperand k) \<and>
         inputs (nodes (snd (bmm_crr_add_call g self a b c)) ! self) = [a, b, c] \<and>
         outputs (nodes (snd (bmm_crr_add_call g self a b c)) ! self) = [length (tensors g)]"
  by (simp add: bmm_crr_add_call_result bmm_crr_call_ok [OF assms(1)]
        bmm_crr_add_call_fields [OF assms(1,3)])

theorem build_accepts_rejected_aux_witness:
  "bmm_crr_infer_shapes (abc_graph [2, 3, 4] [2, 3, 8] [7, 7, 7]) 0 0 1 = Inr [2, 4, 8] \<and>
   \<not> fst (bmm_is_valid_inputs [2, 4, 8]
          (shape (tensors (abc_graph [2, 3, 4] [2, 3, 8] [7, 7, 7]) ! 2))) \<and>
   0 < length (nodes (abc_graph [2, 3, 4] [2, 3, 8] [7, 7, 7])) \<and>
   fst (bmm_crr_add_call (abc_graph [2, 3, 4] [2, 3, 8] [7, 7, 7]) 0 0 1 2) = Inr 3 \<and>
   inputs (nodes (snd (bmm_crr_add_call (abc_graph [2, 3, 4] [2, 3, 8] [7, 7, 7]) 0 0 1 2)) ! 0)
     = [0, 1, 2]"
proof -
  let ?g = "abc_graph [2, 3, 4] [2, 3, 8] [7, 7, 7]"
  have h1: "bmm_crr_infer_shapes ?g 0 0 1 = Inr [2, 4, 8]"
    by (simp add: abc_graph_eval bmm_crr_infer_shapes_def infer_shapes_def)
  have h2: "\<not> fst (bmm_is_valid_inputs [2, 4, 8] (shape (tensors ?g ! 2)))"
    by (simp add: abc_graph_eval bmm_is_valid_inputs_def)
  have h3: "0 < length (nodes ?g)"
    by (simp add: abc_graph_eval)
  have len: "length (tensors ?g) = 3"
    by (simp add: abc_graph_eval)
  from build_accepts_rejected_aux [OF h1 h2 h3] h1 h2 h3 len show ?thesis by simp
qed

text \<open>
  The construction at A (2,3,4), B (2,3,8) and C (2,4,9): the probe rejects C at axis 2,
  and the call nevertheless returns the output tensor 3, with the node populated and
  linked as the producer of the output.
\<close>

theorem build_invalid_aux_counterexample:
  "fst (is_valid_inputs (abc_graph [2, 3, 4] [2, 3, 8] [2, 4, 9]) 0 1 2) =
     Inr (False, Some (2, 8, 9)) \<and>
   fst (bmm_crr_add_call (abc_graph [2, 3, 4] [2, 3, 8] [2, 4, 9]) 0 0 1 2) = Inr 3 \<and>
   inputs (nodes (snd (bmm_crr_add_call (abc_graph [2, 3, 4] [2, 3, 8] [2, 4, 9]) 0 0 1 2)) ! 0)
     = [0, 1, 2] \<and>
   producer (tensors (snd (bmm_crr_add_call (abc_graph [2, 3, 4] [2, 3, 8] [2, 4, 9]) 0 0 1 2))
     ! 3) = Some 0"
  by (simp add: abc_graph_eval run_defs)

text \<open>
  Claim C2, as the code has it. If the probe returns true then the construction
  succeeds; and the construction succeeds exactly when the probe returns a verdict, true
  or false, instead of raising the mismatch of A and B.
\<close>

theorem probe_true_build_succeeds:
  "(fst (is_valid_inputs g a b c) = Inr (True, d) \<longrightarrow>
      fst (bmm_crr_add_call g self a b c) = Inr (length (tensors g))) \<and>
   ((\<exists>out. fst (bmm_crr_add_call g self a b c) = Inr out) =
    (\<exists>v. fst (is_valid_inputs g a b c) = Inr v))"
proof (cases "bmm_crr_infer_shapes g self a b")
  case (Inl e)
  then show ?thesis
    by (simp add: is_valid_inputs_result bmm_crr_add_call_fail bmm_crr_infer_shapes_def)
next
  case (Inr s)
  then show ?thesis
    by (simp add: is_valid_inputs_result bmm_crr_add_call_result bmm_crr_call_ok [OF Inr]
          bmm_crr_infer_shapes_def)
qed

theorem probe_true_build_succeeds_witness:
  "fst (is_valid_inputs (abc_graph [2, 3, 4] [2, 3, 8] [4, 8]) 0 1 2) = Inr (True, None) \<and>
   fst (bmm_crr_add_call (abc_graph [2, 3, 4] [2, 3, 8] [4, 8]) 0 0 1 2) = Inr 3"
proof -
  let ?g = "abc_graph [2, 3, 4] [2, 3, 8] [4, 8]"
  have h: "fst (is_valid_inputs ?g 0 1 2) = Inr (True, None)"
    by (simp add: abc_graph_eval run_defs)
  have len: "length (tensors ?g) = 3"
    by (simp add: abc_graph_eval)
  from probe_true_build_succeeds [of ?g 0 1 2 None 0] h len show ?thesis by simp
qed

text \<open>
  The probe and the construction at A (2,3,4), B (2,3,8) and C (3,4,8): the probe returns
  false, the construction succeeds.
\<close>

theorem probe_iff_build_counterexample:
  "fst (is_valid_inputs (abc_graph [2, 3, 4] [2, 3, 8] [3, 4, 8]) 0 1 2) =
     Inr (False, Some (0, 2, 3)) \<and>
   fst (bmm_crr_add_call (abc_graph [2, 3, 4] [2, 3, 8] [3, 4, 8]) 0 0 1 2) = Inr 3"
  by (simp add: abc_graph_eval run_defs)

text \<open>
  Claim C3. For A of shape (Batch, K, M) and B of shape (Batch, K, N), the batch extents
  equal and the contraction extents equal, the construction succeeds and the tensor it
  returns has shape exactly (Batch, M, N). This holds for every auxiliary operand C, so
  also for every compatible one.
\<close>

theorem build_output_shape:
  assumes "shape (tensors g ! a) = [batch, k, m]" and "shape (tensors g ! b) = [batch, k, n]"
  shows "fst (bmm_crr_add_call g self a b c) = Inr (length (tensors g)) \<and>
         shape (tensors (snd (bmm_crr_add_call g self a b c)) ! length (tensors g)) =
           [batch, m, n]"
proof -
  from assms have ok: "bmm_crr_infer_shapes g self a b = Inr [batch, m, n]"
    by (simp add: bmm_crr_infer_shapes_def infer_shapes_rank3)
  show ?thesis
    by (simp add: bmm_crr_add_call_result bmm_crr_add_call_tensors bmm_crr_call_ok [OF ok])
qed

theorem build_output_shape_witness:
  "shape (tensors (abc_graph [4, 16, 32] [4, 16, 64] [32, 64]) ! 0) = [4, 16, 32] \<and>
   shape (tensors (abc_graph [4, 16, 32] [4, 16, 64] [32, 64]) ! 1) = [4, 16, 64] \<and>
   fst (bmm_crr_add_call (abc_graph [4, 16, 32] [4, 16, 64] [32, 64]) 0 0 1 2) = Inr 3 \<and>
   shape (tensors (snd (bmm_crr_add_call (abc_graph [4, 16, 32] [4, 16, 64] [32, 64]) 0 0 1 2))
     ! 3) = [4, 32, 64]"
proof -
  let ?g = "abc_graph [4, 16, 32] [4, 16, 64] [32, 64]"
  have len: "length (tensors ?g) = 3"
    by (simp add: abc_graph_eval)
  have ha: "shape (tensors ?g ! 0) = [4, 16, 32]"
    by (simp add: abc_graph_eval)
  have hb: "shape (tensors ?g ! 1) = [4, 16, 64]"
    by (simp add: abc_graph_eval)
  from build_output_shape [OF ha hb, of 0 2] ha hb len show ?thesis by simp
qed

text \<open>
  Claim C4. With A and B such that the inferred output shape is (2,4,8), the probe accepts
  an auxiliary operand of shape (2,4,8), the exact match, and of the shapes (1,4,8),
  (4,8) and (8,), which broadcast; it rejects (2,4,9), reporting axis 2 with the extents
  8 and 9, and (3,4,8), reporting axis 0 with the extents 2 and 3.
\<close>

theorem probe_broadcast_examples:
  assumes "shape (tensors g ! a) = [2, k, 4]" and "shape (tensors g ! b) = [2, k, 8]"
    and "shape (tensors g ! c1) = [2, 4, 8]" and "shape (tensors g ! c2) = [1, 4, 8]"
    and "shape (tensors g ! c3) = [4, 8]" and "shape (tensors g ! c4) = [8]"
    and "shape (tensors g ! c5) = [2, 4, 9]" and "shape (tensors g ! c6) = [3, 4, 8]"
  shows "bmm_crr_infer_shapes g self a b = Inr [2, 4, 8] \<and>
         fst (is_valid_inputs g a b c1) = Inr (True, None) \<and>
         fst (is_valid_inputs g a b c2) = Inr (True, None) \<and>
         fst (is_valid_inputs g a b c3) = Inr (True, None) \<and>
         fst (is_valid_inputs g a b c4) = Inr (True, None) \<and>
         fst (is_valid_inputs g a b c5) = Inr (False, Some (2, 8, 9)) \<and>
         fst (is_valid_inputs g a b c6) = Inr (False, Some (0, 2, 3))"
  using assms
  by (simp add: is_valid_inputs_result bmm_crr_infer_shapes_def infer_shapes_rank3
        bmm_is_valid_inputs_def)

theorem probe_broadcast_examples_witness:
  "fst (is_valid_inputs (shapes_graph
      [[2, 3, 4], [2, 3, 8], [2, 4, 8], [1, 4, 8], [4, 8], [8], [2, 4, 9], [3, 4, 8]]) 0 1 2)
     = Inr (True, None) \<and>
   fst (is_valid_inputs (shapes_graph
      [[2, 3, 4], [2, 3, 8], [2, 4, 8], [1, 4, 8], [4, 8], [8], [2, 4, 9], [3, 4, 8]]) 0 1 3)
     = Inr (True, None) \<and>
   fst (is_valid_inputs (shapes_graph
      [[2, 3, 4], [2, 3, 8], [2, 4, 8], [1, 4, 8], [4, 8], [8], [2, 4, 9], [3, 4, 8]]) 0 1 4)
     = Inr (True, None) \<and>
   fst (is_valid_inputs (shapes_graph
      [[2, 3, 4], [2, 3, 8], [2, 4, 8], [1, 4, 8], [4, 8], [8], [2, 4, 9], [3, 4, 8]]) 0 1 5)
     = Inr (True, None) \<and>
   fst (is_valid_inputs (shapes_graph
      [[2, 3, 4], [2, 3, 8], [2, 4, 8], [1, 4, 8], [4, 8], [8], [2, 4, 9], [3, 4, 8]]) 0 1 6)
     = Inr (False, Some (2, 8, 9)) \<and>
   fst (is_valid_inputs (shapes_graph
      [[2, 3, 4], [2, 3, 8], [2, 4, 8], [1, 4, 8], [4, 8], [8], [2, 4, 9], [3, 4, 8]]) 0 1 7)
     = Inr (False, Some (0, 2, 3))"
proof -
  let ?ss = "[[2, 3, 4], [2, 3, 8], [2, 4, 8], [1, 4, 8], [4, 8], [8], [2, 4, 9], [3, 4, 8]]
               :: nat list list"
  let ?g = "shapes_graph ?ss"
  have a: "shape (tensors ?g ! 0) = [2, 3, 4]" by (simp add: shapes_graph_def)
  have b: "shape (tensors ?g ! 1) = [2, 3, 8]" by (simp add: shapes_graph_def)
  have c1: "shape (tensors ?g ! 2) = [2, 4, 8]" by (simp add: shapes_graph_def)
  have c2: "shape (tensors ?g ! 3) = [1, 4, 8]" by (simp add: shapes_graph_def)
  have c3: "shape (tensors ?g ! 4) = [4, 8]" by (simp add: shapes_graph_def)
  have c4: "shape (tensors ?g ! 5) = [8]" by (simp add: shapes_graph_def)
  have c5: "shape (tensors ?g ! 6) = [2, 4, 9]" by (simp add: shapes_graph_def)
  have c6: "shape (tensors ?g ! 7) = [3, 4, 8]" by (simp add: shapes_graph_def)
  from probe_broadcast_examples [OF a b c1 c2 c3 c4 c5 c6] show ?thesis by blast
qed

text \<open>
  Claim C5. When the rank of A or of B is not 3, or the batch extents of A and B differ,
  or their contraction extents differ, the construction fails with ShapeMismatch, and the
  graph is as it was before the call: no output tensor has been created and the node
  has not been populated.
\<close>

theorem build_shape_mismatch:
  assumes "length (shape (tensors g ! a)) \<noteq> 3 \<or> length (shape (tensors g ! b)) \<noteq> 3 \<or>
           shape (tensors g ! a) ! 0 \<noteq> shape (tensors g ! b) ! 0 \<or>
           shape (tensors g ! a) ! 1 \<noteq> shape (tensors g ! b) ! 1"
  shows "\<exists>x y. bmm_crr_add_call g self a b c = (Inl (ShapeMismatch x y), g)"
proof -
  from assms have "\<exists>x y. bmm_crr_infer_shapes g self a b = Inl (ShapeMismatch x y)"
    by (auto simp add: bmm_crr_infer_shapes_def infer_shapes_def)
  then show ?thesis by (auto simp add: bmm_crr_add_call_fail)
qed

theorem build_shape_mismatch_witness:
  "shape (tensors (abc_graph [2, 3, 4] [5, 3, 8] [4, 8]) ! 0) ! 0 \<noteq>
     shape (tensors (abc_graph [2, 3, 4] [5, 3, 8] [4, 8]) ! 1) ! 0 \<and>
   (\<exists>x y. bmm_crr_add_call (abc_graph [2, 3, 4] [5, 3, 8] [4, 8]) 0 0 1 2 =
      (Inl (ShapeMismatch x y), abc_graph [2, 3, 4] [5, 3, 8] [4, 8])) \<and>
   shape (tensors (abc_graph [2, 3, 4] [2, 7, 8] [4, 8]) ! 0) ! 1 \<noteq>
     shape (tensors (abc_graph [2, 3, 4] [2, 7, 8] [4, 8]) ! 1) ! 1 \<and>
   (\<exists>x y. bmm_crr_add_call (abc_graph [2, 3, 4] [2, 7, 8] [4, 8]) 0 0 1 2 =
      (Inl (ShapeMismatch x y), abc_graph [2, 3, 4] [2, 7, 8] [4, 8])) \<and>
   length (shape (tensors (abc_graph [3, 4] [2, 3, 8] [4, 8]) ! 0)) \<noteq> 3 \<and>
   (\<exists>x y. bmm_crr_add_call (abc_graph [3, 4] [2, 3, 8] [4, 8]) 0 0 1 2 =
      (Inl (ShapeMismatch x y), abc_graph [3, 4] [2, 3, 8] [4, 8]))"
proof -
  have h1: "shape (tensors (abc_graph [2, 3, 4] [5, 3, 8] [4, 8]) ! 0) ! 0 \<noteq>
     shape (tensors (abc_graph [2, 3, 4] [5, 3, 8] [4, 8]) ! 1) ! 0"
    by (simp add: abc_graph_eval)
  have h2: "shape (tensors (abc_graph [2, 3, 4] [2, 7, 8] [4, 8]) ! 0) ! 1 \<noteq>
     shape (tensors (abc_graph [2, 3, 4] [2, 7, 8] [4, 8]) ! 1) ! 1"
    by (simp add: abc_graph_eval)
  have h3: "length (shape (tensors (abc_graph [3, 4] [2, 3, 8] [4, 8]) ! 0)) \<noteq> 3"
    by (simp add: abc_graph_eval)
  from h1 have r1: "\<exists>x y. bmm_crr_add_call (abc_graph [2, 3, 4] [5, 3, 8] [4, 8]) 0 0 1 2 =
      (Inl (ShapeMismatch x y), abc_graph [2, 3, 4] [5, 3, 8] [4, 8])"
    by (intro build_shape_mismatch) simp
  from h2 have r2: "\<exists>x y. bmm_crr_add_call (abc_graph [2, 3, 4] [2, 7, 8] [4, 8]) 0 0 1 2 =
      (Inl (ShapeMismatch x y), abc_graph [2, 3, 4] [2, 7, 8] [4, 8])"
    by (intro build_shape_mismatch) simp
  from h3 have r3: "\<exists>x y. bmm_crr_add_call (abc_graph [3, 4] [2, 3, 8] [4, 8]) 0 0 1 2 =
      (Inl (ShapeMismatch x y), abc_graph [3, 4] [2, 3, 8] [4, 8])"
    by (intro build_shape_mismatch) simp
  from h1 h2 h3 r1 r2 r3 show ?thesis by blast
qed

text \<open>
  Claim C6. After a successful construction the node has the three inputs A, B, C in this
  order, and its accessor list is the list of fresh accessors of these inputs: both
  lists have length 3, and the accessor at each index views the input at that index.
\<close>

theorem build_accessors_rebuilt:
  assumes "bmm_crr_add_call g self a b c = (Inr out, g')" and "self < length (nodes g)"
  shows "inputs (nodes g' ! self) = [a, b, c] \<and>
         input_accessors (nodes g' ! self) = map TensorAccessor (inputs (nodes g' ! self)) \<and>
         length (input_accessors (nodes g' ! self)) = length (inputs (nodes g' ! self)) \<and>
         length (inputs (nodes g' ! self)) = 3 \<and>
         map acc_tensor (input_accessors (nodes g' ! self)) = inputs (nodes g' ! self)"
proof -
  from bmm_crr_add_call_success [OF assms(1)] obtain s where
    ok: "bmm_crr_infer_shapes g self a b = Inr s" ..
  from assms(1) have g': "g' = snd (bmm_crr_add_call g self a b c)" by simp
  show ?thesis
    by (simp add: g' bmm_crr_add_call_fields [OF ok assms(2)] TensorAccessor_def)
qed

theorem build_accessors_rebuilt_witness:
  "(\<exists>g'. bmm_crr_add_call (abc_graph [4, 16, 32] [4, 16, 64] [32, 64]) 0 0 1 2 = (Inr 3, g') \<and>
      0 < length (nodes (abc_graph [4, 16, 32] [4, 16, 64] [32, 64])) \<and>
      inputs (nodes g' ! 0) = [0, 1, 2] \<and>
      length (input_accessors (nodes g' ! 0)) = 3 \<and>
      map acc_tensor (input_accessors (nodes g' ! 0)) = [0, 1, 2] \<and>
      shape (tensors g' ! 3) = [4, 32, 64])"
proof -
  let ?g = "abc_graph [4, 16, 32] [4, 16, 64] [32, 64]"
  let ?g' = "snd (bmm_crr_add_call ?g 0 0 1 2)"
  have run: "bmm_crr_add_call ?g 0 0 1 2 = (Inr 3, ?g')"
    by (simp only: end_to_end_run snd_conv)
  have out: "shape (tensors ?g' ! 3) = [4, 32, 64]"
    by (simp only: end_to_end_run snd_conv) simp
  have self: "0 < length (nodes ?g)" by (simp add: abc_graph_eval)
  from build_accessors_rebuilt [OF run self] run self out show ?thesis
    by (intro exI [where x = ?g']) (simp add: TensorAccessor_def)
qed

text \<open>
  Claim C7. After a successful construction on a node that produced none of its three
  operands, the depth of the node is 1 plus the maximum over A, B and C of the depth of
  the operand's producer, an operand without producer counting 0. The witness is the case
  of the claim: A and B count 0, the producer of C has depth 2, the node gets depth 3.
\<close>

theorem build_depth:
  assumes "bmm_crr_add_call g self a b c = (Inr out, g')" and "self < length (nodes g)"
    and "a < length (tensors g)" and "b < length (tensors g)" and "c < length (tensors g)"
    and "producer (tensors g ! a) \<noteq> Some self" and "producer (tensors g ! b) \<noteq> Some self"
    and "producer (tensors g ! c) \<noteq> Some self"
  shows "depth (nodes g' ! self) =
           1 + max (producer_depth g a) (max (producer_depth g b) (producer_depth g c))"
proof -
  from bmm_crr_add_call_success [OF assms(1)] obtain s where
    ok: "bmm_crr_infer_shapes g self a b = Inr s" ..
  from assms(1) have g': "g' = snd (bmm_crr_add_call g self a b c)" by simp
  show ?thesis
    unfolding g' using ok assms(2,3,6,4,7,5,8) by (rule bmm_crr_add_call_depth)
qed

theorem build_depth_witness:
  "(\<exists>g'. bmm_crr_add_call depth_graph 1 0 1 2 = (Inr 3, g') \<and>
      producer_depth depth_graph 0 = 0 \<and> producer_depth depth_graph 1 = 0 \<and>
      producer_depth depth_graph 2 = 2 \<and> depth (nodes g' ! 1) = 3)"
proof -
  let ?g' = "snd (bmm_crr_add_call depth_graph 1 0 1 2)"
  have run: "bmm_crr_add_call depth_graph 1 0 1 2 = (Inr 3, ?g')"
    by (simp only: depth_graph_run snd_conv)
  have pd: "producer_depth depth_graph 0 = 0" "producer_depth depth_graph 1 = 0"
    "producer_depth depth_graph 2 = 2"
    by (simp_all add: depth_graph_eval producer_depth_def)
  have "depth (nodes ?g' ! 1) =
      1 + max (producer_depth depth_graph 0)
            (max (producer_depth depth_graph 1) (producer_depth depth_graph 2))"
    by (rule build_depth [OF run]) (simp_all add: depth_graph_eval)
  with pd run show ?thesis
    by (intro exI [where x = ?g']) simp
qed

text \<open>
  Claim C8. The probe leaves the tensor store as it was, so A, B and C are not changed,
  and a second call with the same arguments, made in the state the first call left,
  returns what the first call returned.
\<close>

theorem probe_leaves_tensors:
  "tensors (snd (is_valid_inputs g a b c)) = tensors g \<and>
   fst (is_valid_inputs (snd (is_valid_inputs g a b c)) a b c) = fst (is_valid_inputs g a b c)"
  by (simp add: is_valid_inputs_result is_valid_inputs_state bmm_crr_init_def
        split: sum.splits)

text \<open>
  Claim C9. The value a successful construction returns is the output tensor of the
  parent's two-operand construction over A and B: a tensor created by that construction,
  the only change to the tensor store, with the node as its producer and listed as the
  node's output. It is not C, which is among the node's inputs.
\<close>

theorem build_returns_primary_output:
  assumes "bmm_crr_add_call g self a b c = (Inr out, g')"
    and "c < length (tensors g)" and "self < length (nodes g)"
  shows "fst (bmm_crr_call g self a b) = Inr out \<and>
         tensors g' = tensors (snd (bmm_crr_call g self a b)) \<and>
         butlast (tensors g') = tensors g \<and>
         out = length (tensors g) \<and>
         producer (tensors g' ! out) = Some self \<and>
         outputs (nodes g' ! self) = [out] \<and>
         out \<noteq> c \<and> c \<in> set (inputs (nodes g' ! self))"
proof -
  from bmm_crr_add_call_success [OF assms(1)] obtain s where
    ok: "bmm_crr_infer_shapes g self a b = Inr s" ..
  from assms(1) have g': "g' = snd (bmm_crr_add_call g self a b c)" by simp
  from assms(1) have "fst (bmm_crr_add_call g self a b c) = Inr out" by simp
  then have out: "out = length (tensors g)"
    by (simp add: bmm_crr_add_call_result bmm_crr_call_ok [OF ok])
  show ?thesis
    using assms(2)
    by (simp add: g' out bmm_crr_add_call_tensors bmm_crr_call_ok [OF ok]
          bmm_crr_add_call_fields [OF ok assms(3)])
qed

theorem build_returns_primary_output_witness:
  "(\<exists>g'. bmm_crr_add_call (abc_graph [2, 3, 4] [2, 3, 8] [1, 4, 8]) 0 0 1 2 = (Inr 3, g') \<and>
      2 < length (tensors (abc_graph [2, 3, 4] [2, 3, 8] [1, 4, 8])) \<and>
      0 < length (nodes (abc_graph [2, 3, 4] [2, 3, 8] [1, 4, 8])) \<and>
      fst (bmm_crr_call (abc_graph [2, 3, 4] [2, 3, 8] [1, 4, 8]) 0 0 1) = Inr 3 \<and>
      producer (tensors g' ! 3) = Some 0 \<and> outputs (nodes g' ! 0) = [3] \<and>
      2 \<in> set (inputs (nodes g' ! 0)))"
proof -
  let ?g = "abc_graph [2, 3, 4] [2, 3, 8] [1, 4, 8]"
  have "fst (bmm_crr_add_call ?g 0 0 1 2) = Inr 3"
    by (simp add: abc_graph_eval run_defs)
  then obtain g' where run: "bmm_crr_add_call ?g 0 0 1 2 = (Inr 3, g')"
    by (cases "bmm_crr_add_call ?g 0 0 1 2") simp
  have c: "2 < length (tensors ?g)" and self: "0 < length (nodes ?g)"
    by (simp_all add: abc_graph_eval)
  from build_returns_primary_output [OF run c self] run c self show ?thesis by blast
qed

text \<open>
  Claim C10. The probe constructs one new bmm_crr operator and runs the shape inference
  on it. The operators that existed before the call are all unchanged, the new one
  following them in the store; the tensors are unchanged; and the result of the probe
  does not depend on the operators of the graph.
\<close>

theorem probe_uses_fresh_node:
  "nodes (snd (is_valid_inputs g a b c)) =
     nodes g @ [\<lparr>op = ''bmm_crr'', has_d = False, inputs = [], input_accessors = [],
                 outputs = [], depth = 0\<rparr>] \<and>
   tensors (snd (is_valid_inputs g a b c)) = tensors g \<and>
   fst (is_valid_inputs (g\<lparr>nodes := ns\<rparr>) a b c) = fst (is_valid_inputs g a b c)"
  by (simp add: is_valid_inputs_result is_valid_inputs_state bmm_crr_init_def
        split: sum.splits)

end
